theory Spec2Isabelle
  imports Complex_Main "HOL-Library.AList" "HOL-Library.Char_ord" "HOL-Library.List_Lexorder"
begin

section \<open>Data frames\<close>

text \<open>
  The pipeline works on pandas data frames. A frame is modelled as the ordered list of its
  columns, each a label with the column's values; labels are unique in a frame built from a
  CSV file or from a dict, and the theorems that need it assume it. A column has one of the
  dtypes the pipeline distinguishes: \<open>float64\<close> (finite values, read as reals), \<open>int64\<close>,
  \<open>object\<close> (Python strings) and \<open>datetime64\<close> (read through the \<open>.dt\<close> accessors
  the code uses). Exceptions are values of type \<open>error\<close>.
\<close>

datatype error = KeyError "string list" | TypeError | ValueError | AttributeError | IndexError

record datetime =
  hour :: int
  dayofweek :: int
  day :: int

datatype column =
    FloatCol "real list"
  | IntCol "int list"
  | ObjCol "string list"
  | TimeCol "datetime list"

type_synonym frame = "(string \<times> column) list"

definition columns :: "(string \<times> 'a) list \<Rightarrow> string list" where
  "columns df = map fst df"

text \<open>\<^verbatim>\<open>df[c]\<close>: the column, or a \<^verbatim>\<open>KeyError\<close> that carries the missing label.\<close>

definition getitem :: "frame \<Rightarrow> string \<Rightarrow> error + column" where
  "getitem df c = (case map_of df c of None \<Rightarrow> Inl (KeyError [c]) | Some col \<Rightarrow> Inr col)"

text \<open>\<^verbatim>\<open>df[c] = col\<close>: replaces the column in place, or appends a new last column.\<close>

definition setitem :: "frame \<Rightarrow> string \<Rightarrow> column \<Rightarrow> frame" where
  "setitem df c col = AList.update c col df"

text \<open>\<^verbatim>\<open>df.drop(columns=cs, errors='ignore')\<close>.\<close>

definition drop_columns :: "frame \<Rightarrow> string list \<Rightarrow> frame" where
  "drop_columns df cs = filter (\<lambda>p. fst p \<notin> set cs) df"

text \<open>The values of a numeric column as floats; arithmetic on another dtype raises.\<close>

fun as_float :: "column \<Rightarrow> error + real list" where
  "as_float (FloatCol xs) = Inr xs"
| "as_float (IntCol ns) = Inr (map real_of_int ns)"
| "as_float (ObjCol ss) = Inl TypeError"
| "as_float (TimeCol ts) = Inl TypeError"

definition bind :: "error + 'a \<Rightarrow> ('a \<Rightarrow> error + 'b) \<Rightarrow> error + 'b" where
  "bind m f = (case m of Inl e \<Rightarrow> Inl e | Inr x \<Rightarrow> f x)"

definition numeric :: "frame \<Rightarrow> string \<Rightarrow> error + real list" where
  "numeric df c = bind (getitem df c) as_float"

text \<open>\<^verbatim>\<open>(cond).astype(int)\<close> on one value.\<close>

definition flag :: "bool \<Rightarrow> int" where
  "flag b = (if b then 1 else 0)"

section \<open>Bucketing with \<^verbatim>\<open>pd.cut\<close>\<close>

text \<open>
  \<^verbatim>\<open>pd.cut(x, bins=[b0, b1, ...], labels=[l1, ...])\<close> with its defaults
  (\<^verbatim>\<open>right=True\<close>, \<^verbatim>\<open>include_lowest=False\<close>) puts a value into the interval
  \<open>(b(i-1), bi]\<close> that holds it and gives the missing value to a value outside every
  interval; \<^verbatim>\<open>.astype(str)\<close> then turns the missing value into the string \<open>nan\<close>.
  The last edge of every bin list in the code is \<^verbatim>\<open>np.inf\<close>.
\<close>

datatype edge = Edge real | Inf

fun above :: "edge \<Rightarrow> real \<Rightarrow> bool" where
  "above (Edge b) x = (b < x)"
| "above Inf x = False"

fun upto_edge :: "real \<Rightarrow> edge \<Rightarrow> bool" where
  "upto_edge x (Edge b) = (x \<le> b)"
| "upto_edge x Inf = True"

fun cut :: "edge list \<Rightarrow> string list \<Rightarrow> real \<Rightarrow> string option" where
  "cut (lo # hi # bins) (l # labels) x =
     (if above lo x \<and> upto_edge x hi then Some l else cut (hi # bins) labels x)"
| "cut bins labels x = None"

definition cut_str :: "edge list \<Rightarrow> string list \<Rightarrow> real \<Rightarrow> string" where
  "cut_str bins labels x = (case cut bins labels x of None \<Rightarrow> ''nan'' | Some l \<Rightarrow> l)"

section \<open>Feature engineering at training time: \<^verbatim>\<open>FeatureEngineer\<close>\<close>

definition amount_category :: "real \<Rightarrow> string" where
  "amount_category =
     cut_str [Edge 0, Edge 50, Edge 200, Edge 1000, Inf] [''very_low'', ''low'', ''medium'', ''high'']"

definition create_amount_features :: "frame \<Rightarrow> error + frame" where
  "create_amount_features df =
     bind (numeric df ''amount'') (\<lambda>amount.
     let df1 = setitem df ''amount_log'' (FloatCol (map (\<lambda>x. ln (1 + x)) amount));
         df2 = setitem df1 ''amount_category'' (ObjCol (map amount_category amount))
     in bind (numeric df2 ''avg_transaction_amount_30d'') (\<lambda>avg.
        Inr (setitem df2 ''amount_to_avg_ratio''
               (FloatCol (map2 (\<lambda>x a. x / (a + 1 / 100000)) amount avg)))))"

text \<open>\<^verbatim>\<open>df[c].dt\<close>: the accessor exists on a datetime column only.\<close>

definition dt :: "frame \<Rightarrow> string \<Rightarrow> error + datetime list" where
  "dt df c = bind (getitem df c) (\<lambda>col. case col of TimeCol ts \<Rightarrow> Inr ts | _ \<Rightarrow> Inl AttributeError)"

text \<open>\<^verbatim>\<open>col.isin(ns)\<close> and \<^verbatim>\<open>col == 0\<close> compare value by value and never raise.\<close>

fun isin :: "column \<Rightarrow> int list \<Rightarrow> bool list" where
  "isin (FloatCol xs) ns = map (\<lambda>x. x \<in> set (map real_of_int ns)) xs"
| "isin (IntCol ks) ns = map (\<lambda>k. k \<in> set ns) ks"
| "isin (ObjCol ss) ns = map (\<lambda>s. False) ss"
| "isin (TimeCol ts) ns = map (\<lambda>t. False) ts"

definition eq0 :: "column \<Rightarrow> bool list" where
  "eq0 col = isin col [0]"

definition time_of_day :: "real \<Rightarrow> string" where
  "time_of_day =
     cut_str [Edge 0, Edge 6, Edge 12, Edge 18, Edge 24] [''night'', ''morning'', ''afternoon'', ''evening'']"

text \<open>
  \<^verbatim>\<open>pd.to_datetime\<close>, which parses a column that is not yet of a datetime dtype, is a
  parameter of the model.
\<close>

definition create_temporal_features ::
  "(column \<Rightarrow> error + datetime list) \<Rightarrow> frame \<Rightarrow> string \<Rightarrow> error + frame" where
  "create_temporal_features to_datetime df datetime_col =
     (if datetime_col \<in> set (columns df) then
        bind (getitem df datetime_col) (\<lambda>col.
        bind (case col of TimeCol ts \<Rightarrow> Inr df
              | _ \<Rightarrow> bind (to_datetime col) (\<lambda>ts. Inr (setitem df datetime_col (TimeCol ts)))) (\<lambda>df0.
        bind (dt df0 datetime_col) (\<lambda>t1.
        let df1 = setitem df0 ''hour'' (IntCol (map hour t1)) in
        bind (dt df1 datetime_col) (\<lambda>t2.
        let df2 = setitem df1 ''day_of_week'' (IntCol (map dayofweek t2)) in
        bind (dt df2 datetime_col) (\<lambda>t3.
        let df3 = setitem df2 ''day_of_month'' (IntCol (map day t3)) in
        bind (numeric df3 ''day_of_week'') (\<lambda>dow.
        let df4 = setitem df3 ''is_weekend'' (IntCol (map (\<lambda>d. flag (d \<ge> 5)) dow)) in
        bind (numeric df4 ''hour'') (\<lambda>h.
        let df5 = setitem df4 ''time_of_day'' (ObjCol (map time_of_day h)) in
        bind (getitem df5 ''hour'') (\<lambda>hcol.
        Inr (setitem df5 ''is_peak_hour''
               (IntCol (map flag (isin hcol [8, 9, 10, 17, 18, 19]))))))))))))
      else Inr df)"

definition time_since_last_cat :: "real \<Rightarrow> string" where
  "time_since_last_cat =
     cut_str [Edge 0, Edge 10, Edge 60, Edge 300, Inf] [''recent'', ''normal'', ''long_gap'', ''very_long'']"

definition create_velocity_features :: "frame \<Rightarrow> error + frame" where
  "create_velocity_features df =
     bind (numeric df ''num_transactions_24h'') (\<lambda>n24.
     let df1 = setitem df ''is_high_frequency_24h'' (IntCol (map (\<lambda>n. flag (n > 5)) n24)) in
     bind (numeric df1 ''num_transactions_7d'') (\<lambda>n7.
     let df2 = setitem df1 ''is_high_frequency_7d'' (IntCol (map (\<lambda>n. flag (n > 20)) n7)) in
     bind (numeric df2 ''time_since_last_transaction'') (\<lambda>ts.
     Inr (setitem df2 ''time_since_last_cat'' (ObjCol (map time_since_last_cat ts))))))"

definition distance_home_cat :: "real \<Rightarrow> string" where
  "distance_home_cat =
     cut_str [Edge 0, Edge 10, Edge 50, Edge 200, Inf] [''very_close'', ''close'', ''medium'', ''far'']"

definition create_distance_features :: "frame \<Rightarrow> error + frame" where
  "create_distance_features df =
     bind (numeric df ''distance_from_home'') (\<lambda>dh.
     let df1 = setitem df ''distance_home_cat'' (ObjCol (map distance_home_cat dh)) in
     bind (numeric df1 ''distance_from_home'') (\<lambda>dh'.
     let df2 = setitem df1 ''is_far_from_home'' (IntCol (map (\<lambda>d. flag (d > 100)) dh')) in
     bind (numeric df2 ''distance_from_last_transaction'') (\<lambda>dl.
     Inr (setitem df2 ''is_far_from_last'' (IntCol (map (\<lambda>d. flag (d > 50)) dl))))))"

text \<open>Adding two integer columns row by row; \<^verbatim>\<open>.astype(int)\<close> on a float truncates.\<close>

definition add_cols :: "int list \<Rightarrow> int list \<Rightarrow> int list" where
  "add_cols xs ys = map2 (+) xs ys"

definition trunc :: "real \<Rightarrow> int" where
  "trunc x = (if 0 \<le> x then \<lfloor>x\<rfloor> else \<lceil>x\<rceil>)"

text \<open>
  The composite risk score of the training path. \<^verbatim>\<open>df.get('is_weekend', 0)\<close> is the
  column when the frame has one and the integer 0 otherwise; the integer has no
  \<^verbatim>\<open>astype\<close>, so the expression raises \<^verbatim>\<open>AttributeError\<close> then, and the same for
  \<^verbatim>\<open>is_peak_hour\<close>. The operands are evaluated from left to right.
\<close>

definition create_risk_score :: "frame \<Rightarrow> error + frame" where
  "create_risk_score df =
     bind (numeric df ''amount'') (\<lambda>amount.
     bind (getitem df ''card_present'') (\<lambda>card.
     bind (numeric df ''distance_from_home'') (\<lambda>dh.
     bind (numeric df ''num_transactions_24h'') (\<lambda>n24.
     bind (case map_of df ''is_weekend'' of None \<Rightarrow> Inl AttributeError
           | Some col \<Rightarrow> as_float col) (\<lambda>weekend.
     bind (case map_of df ''is_peak_hour'' of None \<Rightarrow> Inl AttributeError
           | Some col \<Rightarrow> Inr (eq0 col)) (\<lambda>offpeak.
     Inr (setitem df ''risk_score'' (IntCol
       (add_cols (add_cols (add_cols (add_cols (add_cols
          (map (\<lambda>x. flag (x > 1000) * 2) amount)
          (map flag (eq0 card)))
          (map (\<lambda>d. flag (d > 100)) dh))
          (map (\<lambda>n. flag (n > 5)) n24))
          (map (\<lambda>w. trunc (w * (1 / 2))) weekend))
          (map flag offpeak))))))))))"

text \<open>\<^verbatim>\<open>FeatureEngineer.fit_transform\<close>: the five transformations in order.\<close>

definition fe_fit_transform :: "(column \<Rightarrow> error + datetime list) \<Rightarrow> frame \<Rightarrow> error + frame" where
  "fe_fit_transform to_datetime df =
     bind (create_amount_features df) (\<lambda>df1.
     bind (create_temporal_features to_datetime df1 ''timestamp'') (\<lambda>df2.
     bind (create_velocity_features df2) (\<lambda>df3.
     bind (create_distance_features df3) (\<lambda>df4.
     create_risk_score df4))))"

section \<open>Feature engineering at serving time: \<^verbatim>\<open>predict_fraud\<close>\<close>

text \<open>The request body, as the \<^verbatim>\<open>Transaction\<close> schema declares it.\<close>

record transaction =
  amount :: real
  merchant_category :: string
  card_present :: int
  transaction_type :: string
  distance_from_home :: real
  distance_from_last_transaction :: real
  time_since_last_transaction :: real
  customer_age :: int
  customer_tenure_days :: int
  avg_transaction_amount_30d :: real
  num_transactions_24h :: int
  num_transactions_7d :: int

text \<open>
  \<^verbatim>\<open>pd.DataFrame([transaction.dict()])\<close> with the column \<^verbatim>\<open>timestamp\<close> set to
  \<^verbatim>\<open>datetime.now()\<close>: a frame of one row.
\<close>

definition request_frame :: "datetime \<Rightarrow> transaction \<Rightarrow> frame" where
  "request_frame now t =
     [(''amount'', FloatCol [amount t]),
      (''merchant_category'', ObjCol [merchant_category t]),
      (''card_present'', IntCol [card_present t]),
      (''transaction_type'', ObjCol [transaction_type t]),
      (''distance_from_home'', FloatCol [distance_from_home t]),
      (''distance_from_last_transaction'', FloatCol [distance_from_last_transaction t]),
      (''time_since_last_transaction'', FloatCol [time_since_last_transaction t]),
      (''customer_age'', IntCol [customer_age t]),
      (''customer_tenure_days'', IntCol [customer_tenure_days t]),
      (''avg_transaction_amount_30d'', FloatCol [avg_transaction_amount_30d t]),
      (''num_transactions_24h'', IntCol [num_transactions_24h t]),
      (''num_transactions_7d'', IntCol [num_transactions_7d t]),
      (''timestamp'', TimeCol [now])]"

text \<open>
  The risk score of the serving path (\<^verbatim>\<open># Risk score (simplified version)\<close>), inside
  the block headed \<^verbatim>\<open># Apply feature engineering (same as training)\<close>.
\<close>

definition serving_risk_score :: "frame \<Rightarrow> error + frame" where
  "serving_risk_score df =
     bind (numeric df ''amount'') (\<lambda>amount.
     bind (getitem df ''card_present'') (\<lambda>card.
     bind (numeric df ''distance_from_home'') (\<lambda>dh.
     bind (numeric df ''num_transactions_24h'') (\<lambda>n24.
     Inr (setitem df ''risk_score'' (IntCol
       (add_cols (add_cols (add_cols
          (map (\<lambda>x. flag (x > 1000) * 2) amount)
          (map flag (eq0 card)))
          (map (\<lambda>d. flag (d > 100)) dh))
          (map (\<lambda>n. flag (n > 5)) n24))))))))"

text \<open>
  The feature engineering of \<^verbatim>\<open>predict_fraud\<close>, from the request to the frame it hands
  to the preprocessor's components. Its amount, temporal, velocity and distance
  assignments are, statement by statement, those of the \<^verbatim>\<open>FeatureEngineer\<close> methods (the
  timestamp column is a datetime column already, so nothing is parsed); the risk score
  is its own.
\<close>

definition predict_features :: "datetime \<Rightarrow> transaction \<Rightarrow> error + frame" where
  "predict_features now t =
     bind (create_amount_features (request_frame now t)) (\<lambda>df1.
     bind (create_temporal_features (\<lambda>col. Inl TypeError) df1 ''timestamp'') (\<lambda>df2.
     bind (create_velocity_features df2) (\<lambda>df3.
     bind (create_distance_features df3) (\<lambda>df4.
     bind (serving_risk_score df4) (\<lambda>df5.
     Inr (drop_columns df5 [''timestamp'']))))))"

section \<open>The library's encoder and scaler\<close>

text \<open>
  \<^verbatim>\<open>sklearn.preprocessing.LabelEncoder\<close>: fitting stores in \<^verbatim>\<open>classes_\<close> the distinct
  labels in sorted order (Python compares strings by code point, which on byte strings is
  the lexicographic order of the bytes); a label's code is its position in
  \<^verbatim>\<open>classes_\<close>, and \<^verbatim>\<open>transform\<close> raises \<^verbatim>\<open>ValueError\<close> on a label it has not seen.
\<close>

fun index_of :: "'a list \<Rightarrow> 'a \<Rightarrow> nat" where
  "index_of [] y = 0"
| "index_of (x # xs) y = (if x = y then 0 else Suc (index_of xs y))"

definition le_fit :: "string list \<Rightarrow> string list" where
  "le_fit ys = sort (remdups ys)"

definition le_transform :: "string list \<Rightarrow> string list \<Rightarrow> error + int list" where
  "le_transform classes ys =
     (if list_all (\<lambda>y. y \<in> set classes) ys then Inr (map (\<lambda>y. int (index_of classes y)) ys)
      else Inl ValueError)"

definition le_fit_transform :: "string list \<Rightarrow> string list \<times> int list" where
  "le_fit_transform ys =
     (let classes = le_fit ys in (classes, map (\<lambda>y. int (index_of classes y)) ys))"

text \<open>
  \<^verbatim>\<open>sklearn.preprocessing.StandardScaler\<close> on a matrix given by its columns: fitting
  stores each column's mean and its standard deviation (of the population, not of a
  sample), a standard deviation of zero replaced by one; \<^verbatim>\<open>transform\<close> subtracts the
  mean and divides by the stored divisor. Both refuse a matrix with no column or no row
  (the columns of a matrix have one length, so the first one tells), and \<^verbatim>\<open>transform\<close>
  one whose number of columns is not the fitted one. \<^verbatim>\<open>fit_transform\<close> is \<^verbatim>\<open>fit\<close>
  followed by \<^verbatim>\<open>transform\<close>. Floats are read as reals, and this is the library in
  exact arithmetic: the float mean of a column is rounded (three values 0.1 have the
  float mean 0.10000000000000002), and the library stores the divisor one also for a
  deviation within rounding noise of zero. What depends on either, the value a constant
  scales to among them, is not stated in this theory; that applying the fitted scaler
  repeats what the fit computed does not depend on them.
\<close>

record standard_scaler =
  scaler_mean :: "real list"
  scaler_scale :: "real list"

definition mean :: "real list \<Rightarrow> real" where
  "mean xs = sum_list xs / real (length xs)"

definition variance :: "real list \<Rightarrow> real" where
  "variance xs = sum_list (map (\<lambda>x. (x - mean xs)\<^sup>2) xs) / real (length xs)"

definition handle_zeros_in_scale :: "real \<Rightarrow> real" where
  "handle_zeros_in_scale s = (if s = 0 then 1 else s)"

definition empty_matrix :: "real list list \<Rightarrow> bool" where
  "empty_matrix X = (case X of [] \<Rightarrow> True | col # cols \<Rightarrow> col = [])"

definition scaler_fit :: "real list list \<Rightarrow> error + standard_scaler" where
  "scaler_fit X =
     (if empty_matrix X then Inl ValueError
      else Inr \<lparr>scaler_mean = map mean X,
                scaler_scale = map (\<lambda>col. handle_zeros_in_scale (sqrt (variance col))) X\<rparr>)"

definition scaler_transform :: "standard_scaler \<Rightarrow> real list list \<Rightarrow> error + real list list" where
  "scaler_transform sc X =
     (if empty_matrix X \<or> length X \<noteq> length (scaler_mean sc) then Inl ValueError
      else Inr (map (\<lambda>(col, m, s). map (\<lambda>x. (x - m) / s) col) (zip X (zip (scaler_mean sc) (scaler_scale sc)))))"

definition scaler_fit_transform :: "real list list \<Rightarrow> error + standard_scaler \<times> real list list" where
  "scaler_fit_transform X =
     bind (scaler_fit X) (\<lambda>sc. bind (scaler_transform sc X) (\<lambda>Y. Inr (sc, Y)))"

section \<open>Preprocessing: \<^verbatim>\<open>DataPreprocessor\<close>\<close>

text \<open>
  The object's attributes. \<^verbatim>\<open>label_encoders\<close> is a dict from a column label to a fitted
  encoder, which is its \<^verbatim>\<open>classes_\<close>; \<^verbatim>\<open>scaler\<close> is \<^verbatim>\<open>None\<close> until a scaler is
  fitted. The state an object is left in by a call that raises is not modelled.
\<close>

record preprocessor =
  target_col :: string
  label_encoders :: "(string \<times> string list) list"
  scaler :: "standard_scaler option"
  numeric_features :: "string list"
  categorical_features :: "string list"
  features_to_drop :: "string list"

definition init :: "string \<Rightarrow> preprocessor" where
  "init target = \<lparr>target_col = target, label_encoders = [], scaler = None,
     numeric_features = [], categorical_features = [], features_to_drop = []\<rparr>"

fun is_number :: "column \<Rightarrow> bool" where
  "is_number (FloatCol xs) = True"
| "is_number (IntCol ns) = True"
| "is_number col = False"

fun is_object :: "column \<Rightarrow> bool" where
  "is_object (ObjCol ss) = True"
| "is_object col = False"

definition identify_feature_types :: "preprocessor \<Rightarrow> frame \<Rightarrow> preprocessor" where
  "identify_feature_types st df =
     (let drop_cols = [''transaction_id'', ''timestamp'', target_col st];
          to_drop = filter (\<lambda>c. c \<in> set (columns df)) drop_cols;
          remaining = filter (\<lambda>p. fst p \<notin> set to_drop) df
      in st\<lparr>features_to_drop := to_drop,
            numeric_features := map fst (filter (\<lambda>p. is_number (snd p)) remaining),
            categorical_features := map fst (filter (\<lambda>p. is_object (snd p)) remaining)\<rparr>)"

text \<open>
  \<^verbatim>\<open>col.astype(str)\<close>: the strings of an object column are themselves; what Python
  prints for the values of another dtype is the parameter \<open>py_str\<close>.
\<close>

definition astype_str :: "(column \<Rightarrow> string list) \<Rightarrow> column \<Rightarrow> string list" where
  "astype_str py_str col = (case col of ObjCol ss \<Rightarrow> ss | _ \<Rightarrow> py_str col)"

text \<open>\<^verbatim>\<open>col.apply(f)\<close>: \<open>f\<close> on every value in order; the first exception ends it.\<close>

fun apply_col :: "('a \<Rightarrow> error + 'b) \<Rightarrow> 'a list \<Rightarrow> error + 'b list" where
  "apply_col f [] = Inr []"
| "apply_col f (x # xs) = bind (f x) (\<lambda>y. bind (apply_col f xs) (\<lambda>ys. Inr (y # ys)))"

text \<open>
  \<^verbatim>\<open>lambda x: le.transform([x])[0] if x in le.classes_ else -1\<close>, the function both
  \<^verbatim>\<open>encode_categorical_features\<close> and \<^verbatim>\<open>predict_fraud\<close> apply to every value.
\<close>

definition encode_or_sentinel :: "string list \<Rightarrow> string \<Rightarrow> error + int" where
  "encode_or_sentinel classes x =
     (if x \<in> set classes
      then bind (le_transform classes [x]) (\<lambda>r. case r of [] \<Rightarrow> Inl IndexError | c # cs \<Rightarrow> Inr c)
      else Inr (- 1))"

text \<open>The loop of \<^verbatim>\<open>encode_categorical_features\<close> over \<^verbatim>\<open>self.categorical_features\<close>.\<close>

fun encode_loop ::
  "(column \<Rightarrow> string list) \<Rightarrow> bool \<Rightarrow> string list \<Rightarrow> (string \<times> string list) list \<Rightarrow> frame
     \<Rightarrow> error + (string \<times> string list) list \<times> frame" where
  "encode_loop py_str fit [] encoders df = Inr (encoders, df)"
| "encode_loop py_str fit (col # cols) encoders df =
     (case map_of df col of
        None \<Rightarrow> encode_loop py_str fit cols encoders df
      | Some c \<Rightarrow>
          if fit then
            (case le_fit_transform (astype_str py_str c) of (classes, codes) \<Rightarrow>
               encode_loop py_str fit cols (AList.update col classes encoders)
                 (setitem df col (IntCol codes)))
          else
            (case map_of encoders col of
               None \<Rightarrow> encode_loop py_str fit cols encoders df
             | Some classes \<Rightarrow>
                 bind (apply_col (encode_or_sentinel classes) (astype_str py_str c)) (\<lambda>codes.
                 encode_loop py_str fit cols encoders (setitem df col (IntCol codes)))))"

definition encode_categorical_features ::
  "(column \<Rightarrow> string list) \<Rightarrow> preprocessor \<Rightarrow> frame \<Rightarrow> bool \<Rightarrow> error + preprocessor \<times> frame" where
  "encode_categorical_features py_str st df fit =
     bind (encode_loop py_str fit (categorical_features st) (label_encoders st) df)
       (\<lambda>(encoders, df_encoded). Inr (st\<lparr>label_encoders := encoders\<rparr>, df_encoded))"

text \<open>
  \<^verbatim>\<open>df[names]\<close> as the matrix the scaler receives: a \<^verbatim>\<open>KeyError\<close> with the labels the
  frame does not have, then the conversion of every column to floats, which for a column
  that is not numeric is the parameter \<open>to_float\<close>.
\<close>

fun matrix_of :: "(column \<Rightarrow> error + real list) \<Rightarrow> column list \<Rightarrow> error + real list list" where
  "matrix_of to_float [] = Inr []"
| "matrix_of to_float (col # cols) =
     bind (if is_number col then as_float col else to_float col) (\<lambda>xs.
     bind (matrix_of to_float cols) (\<lambda>X. Inr (xs # X)))"

definition select :: "(column \<Rightarrow> error + real list) \<Rightarrow> frame \<Rightarrow> string list \<Rightarrow> error + real list list" where
  "select to_float df names =
     (let missing = filter (\<lambda>c. c \<notin> set (columns df)) names in
      if missing \<noteq> [] then Inl (KeyError missing)
      else matrix_of to_float (map (\<lambda>c. the (map_of df c)) names))"

text \<open>\<^verbatim>\<open>df[names] = Y\<close> for labels the frame has: every column replaced in place.\<close>

fun assign :: "frame \<Rightarrow> string list \<Rightarrow> real list list \<Rightarrow> frame" where
  "assign df (c # names) (ys # Y) = assign (setitem df c (FloatCol ys)) names Y"
| "assign df names Y = df"

definition scale_numeric_features ::
  "(column \<Rightarrow> error + real list) \<Rightarrow> preprocessor \<Rightarrow> frame \<Rightarrow> bool \<Rightarrow> error + preprocessor \<times> frame" where
  "scale_numeric_features to_float st df fit =
     (if fit then
        bind (select to_float df (numeric_features st)) (\<lambda>X.
        bind (scaler_fit_transform X) (\<lambda>(sc, Y).
        Inr (st\<lparr>scaler := Some sc\<rparr>, assign df (numeric_features st) Y)))
      else
        (case scaler st of
           None \<Rightarrow> Inr (st, df)
         | Some sc \<Rightarrow>
             bind (select to_float df (numeric_features st)) (\<lambda>X.
             bind (scaler_transform sc X) (\<lambda>Y.
             Inr (st, assign df (numeric_features st) Y)))))"

text \<open>
  Separating the target and dropping the unnecessary columns, the common start of
  \<^verbatim>\<open>fit_transform\<close> and \<^verbatim>\<open>transform\<close>.
\<close>

definition separate_target :: "preprocessor \<Rightarrow> frame \<Rightarrow> frame \<times> column option" where
  "separate_target st df =
     (let y = map_of df (target_col st);
          df_features = (if target_col st \<in> set (columns df) then drop_columns df [target_col st] else df)
      in (drop_columns df_features (features_to_drop st), y))"

text \<open>
  \<^verbatim>\<open>fit_transform\<close> prints the fraud rate \<^verbatim>\<open>y.mean()\<close> between encoding and scaling;
  the mean of a target column of strings raises \<^verbatim>\<open>TypeError\<close>.
\<close>

definition fraud_rate :: "column option \<Rightarrow> error + unit" where
  "fraud_rate y = (case y of Some (ObjCol ss) \<Rightarrow> Inl TypeError | _ \<Rightarrow> Inr ())"

definition fit_transform ::
  "(column \<Rightarrow> string list) \<Rightarrow> (column \<Rightarrow> error + real list) \<Rightarrow> preprocessor \<Rightarrow> frame
     \<Rightarrow> error + preprocessor \<times> frame \<times> column option" where
  "fit_transform py_str to_float st df =
     (let st1 = identify_feature_types st df in
      case separate_target st1 df of (df_features, y) \<Rightarrow>
        bind (encode_categorical_features py_str st1 df_features True) (\<lambda>(st2, df_encoded).
        bind (fraud_rate y) (\<lambda>u.
        bind (scale_numeric_features to_float st2 df_encoded True) (\<lambda>(st3, df_scaled).
        Inr (st3, df_scaled, y)))))"

definition transform ::
  "(column \<Rightarrow> string list) \<Rightarrow> (column \<Rightarrow> error + real list) \<Rightarrow> preprocessor \<Rightarrow> frame
     \<Rightarrow> error + frame \<times> column option" where
  "transform py_str to_float st df =
     (case separate_target st df of (df_features, y) \<Rightarrow>
        bind (encode_categorical_features py_str st df_features False) (\<lambda>(st1, df_encoded).
        bind (scale_numeric_features to_float st1 df_encoded False) (\<lambda>(st2, df_scaled).
        Inr (df_scaled, y))))"

section \<open>Drift monitoring: \<^verbatim>\<open>FraudMonitor\<close>\<close>

text \<open>
  The monitor's frames come from CSV files; a value of a column is \<open>None\<close> when it is
  missing (NaN). The two-sample Kolmogorov-Smirnov test \<^verbatim>\<open>stats.ks_2samp\<close> is a
  parameter \<open>ks\<close> of the model: it returns the statistic and the p-value, or raises. The
  order in which Python enumerates \<^verbatim>\<open>list(set(...) & set(...))\<close> is not fixed by the
  language; it is the parameter \<open>enum\<close>. The clock is the parameter \<open>now\<close>.
\<close>

type_synonym 'v table = "(string \<times> 'v option list) list"

record drift_entry =
  feature :: string
  p_value :: real
  statistic :: real

record drift_results =
  timestamp :: string
  features_with_drift :: "drift_entry list"
  drift_detected :: bool

record 'v monitor =
  baseline_data :: "'v table"
  drift_log :: "drift_results list"

definition dropna :: "'v option list \<Rightarrow> 'v list" where
  "dropna vs = List.map_filter id vs"

text \<open>
  The loop over the common columns. Everything inside it is under \<^verbatim>\<open>try\<close> with a bare
  \<^verbatim>\<open>except: continue\<close>, so a column whose test raises leaves the result as it was.
\<close>

fun drift_loop ::
  "('v list \<Rightarrow> 'v list \<Rightarrow> error + real \<times> real) \<Rightarrow> 'v table \<Rightarrow> 'v table \<Rightarrow> real \<Rightarrow> string list
     \<Rightarrow> drift_results \<Rightarrow> drift_results" where
  "drift_loop ks baseline new_data threshold [] r = r"
| "drift_loop ks baseline new_data threshold (col # cols) r =
     (case (map_of baseline col, map_of new_data col) of
        (Some bc, Some nc) \<Rightarrow>
          (let baseline_vals = dropna bc; new_vals = dropna nc in
           if length baseline_vals > 0 \<and> length new_vals > 0 then
             (case ks baseline_vals new_vals of
                Inl e \<Rightarrow> drift_loop ks baseline new_data threshold cols r
              | Inr (stat, p) \<Rightarrow>
                  if p < threshold then
                    drift_loop ks baseline new_data threshold cols
                      (r\<lparr>features_with_drift := features_with_drift r @
                            [\<lparr>feature = col, p_value = p, statistic = stat\<rparr>],
                         drift_detected := True\<rparr>)
                  else drift_loop ks baseline new_data threshold cols r)
           else drift_loop ks baseline new_data threshold cols r)
      | _ \<Rightarrow> drift_loop ks baseline new_data threshold cols r)"

definition common_cols :: "'v table \<Rightarrow> 'v table \<Rightarrow> string set" where
  "common_cols baseline new_data = set (columns baseline) \<inter> set (columns new_data)"

definition detect_data_drift ::
  "('v list \<Rightarrow> 'v list \<Rightarrow> error + real \<times> real) \<Rightarrow> (string set \<Rightarrow> string list) \<Rightarrow> string
     \<Rightarrow> 'v monitor \<Rightarrow> 'v table \<Rightarrow> real \<Rightarrow> drift_results \<times> 'v monitor" where
  "detect_data_drift ks enum now m new_data threshold =
     (let drift_results0 = \<lparr>timestamp = now, features_with_drift = [], drift_detected = False\<rparr>;
          r = drift_loop ks (baseline_data m) new_data threshold
                (enum (common_cols (baseline_data m) new_data)) drift_results0
      in (r, m\<lparr>drift_log := drift_log m @ [r]\<rparr>))"

text \<open>
  A column is flagged, in the specification's words, when it is present in both frames,
  its samples are nonempty in both after removing missing values, and the test on them
  returns a p-value strictly below the threshold.
\<close>

definition flagged ::
  "('v list \<Rightarrow> 'v list \<Rightarrow> error + real \<times> real) \<Rightarrow> 'v table \<Rightarrow> 'v table \<Rightarrow> real \<Rightarrow> string
     \<Rightarrow> real \<Rightarrow> real \<Rightarrow> bool" where
  "flagged ks baseline new_data threshold col stat p =
     (case (map_of baseline col, map_of new_data col) of
        (Some bc, Some nc) \<Rightarrow>
          dropna bc \<noteq> [] \<and> dropna nc \<noteq> [] \<and>
          ks (dropna bc) (dropna nc) = Inr (stat, p) \<and> p < threshold
      | _ \<Rightarrow> False)"

definition default_threshold :: real where
  "default_threshold = 5 / 100"

section \<open>Example inputs\<close>

text \<open>
  The record of the specification's end-to-end scenario, requested on a Wednesday at
  noon, and instances of the parameters for frames on which they are never called.
\<close>

definition example_transaction :: transaction where
  "example_transaction =
     \<lparr>amount = 1500, merchant_category = ''online'', card_present = 0,
      transaction_type = ''purchase'', distance_from_home = 150,
      distance_from_last_transaction = 5, time_since_last_transaction = 30,
      customer_age = 40, customer_tenure_days = 400, avg_transaction_amount_30d = 200,
      num_transactions_24h = 8, num_transactions_7d = 25\<rparr>"

definition example_now :: datetime where
  "example_now = \<lparr>hour = 12, dayofweek = 2, day = 4\<rparr>"

definition no_datetime :: "column \<Rightarrow> error + datetime list" where
  "no_datetime col = Inl ValueError"

definition no_str :: "column \<Rightarrow> string list" where
  "no_str col = []"

definition no_float :: "column \<Rightarrow> error + real list" where
  "no_float col = Inl ValueError"

text \<open>
  A training batch of two records, the state \<^verbatim>\<open>fit_transform\<close> leaves the preprocessor
  in on it and the feature matrix it returns; a preprocessor with one categorical
  feature, a batch to fit its encoder on and a batch with a category the fit has not seen.
\<close>

definition example_batch :: frame where
  "example_batch =
     [(''transaction_id'', IntCol [1, 2]),
      (''amount'', FloatCol [1, 3]),
      (''merchant_category'', ObjCol [''gas'', ''food'']),
      (''is_fraud'', IntCol [0, 1])]"

definition example_fitted :: preprocessor where
  "example_fitted =
     \<lparr>target_col = ''is_fraud'',
      label_encoders = [(''merchant_category'', [''food'', ''gas''])],
      scaler = Some \<lparr>scaler_mean = [2], scaler_scale = [1]\<rparr>,
      numeric_features = [''amount''],
      categorical_features = [''merchant_category''],
      features_to_drop = [''transaction_id'', ''is_fraud'']\<rparr>"

definition example_matrix :: frame where
  "example_matrix = [(''amount'', FloatCol [- 1, 1]), (''merchant_category'', IntCol [1, 0])]"

definition category_state :: preprocessor where
  "category_state = (init ''is_fraud'')\<lparr>categorical_features := [''merchant_category'']\<rparr>"

definition category_batch :: frame where
  "category_batch = [(''merchant_category'', ObjCol [''food'', ''gas'']), (''amount'', FloatCol [10, 20])]"

definition category_request :: frame where
  "category_request =
     [(''merchant_category'', ObjCol [''gas'', ''travel'', ''food'']), (''amount'', FloatCol [1, 2, 3])]"

text \<open>
  For the monitor: an enumeration of a set of labels in the order of a given list, a
  stand-in for the test that separates equal samples from different ones, and two frames
  that share the columns \<open>amount\<close> and \<open>customer_age\<close>, the latter all missing in the
  baseline.
\<close>

definition enum_of :: "string list \<Rightarrow> string set \<Rightarrow> string list" where
  "enum_of order S = filter (\<lambda>c. c \<in> S) order"

definition example_ks :: "real list \<Rightarrow> real list \<Rightarrow> error + real \<times> real" where
  "example_ks xs ys = (if xs = ys then Inr (0, 1) else Inr (1, 0))"

definition example_baseline :: "real table" where
  "example_baseline = [(''amount'', [Some 1, None, Some 2]), (''customer_age'', [None, None])]"

definition example_new :: "real table" where
  "example_new = [(''amount'', [Some 100, Some 200]), (''customer_age'', [Some 30]), (''hour'', [Some 3])]"

definition example_monitor :: "real monitor" where
  "example_monitor = \<lparr>baseline_data = example_baseline, drift_log = []\<rparr>"

section \<open>Properties of the feature engineering\<close>

lemma map_of_setitem: "map_of (setitem df c col) = (map_of df)(c \<mapsto> col)"
  by (simp add: setitem_def update_conv')

lemma columns_map_of: "c \<in> set (columns df) \<longleftrightarrow> map_of df c \<noteq> None"
  by (simp add: columns_def map_of_eq_None_iff)

lemma getitem_missing: "c \<notin> set (columns df) \<Longrightarrow> getitem df c = Inl (KeyError [c])"
  by (simp add: getitem_def columns_map_of)

lemma numeric_missing: "c \<notin> set (columns df) \<Longrightarrow> numeric df c = Inl (KeyError [c])"
  by (simp add: numeric_def getitem_missing bind_def)

lemma numeric_setitem_other: "c \<noteq> c' \<Longrightarrow> numeric (setitem df c' col) c = numeric df c"
  by (simp add: numeric_def getitem_def map_of_setitem)




text \<open>
  Claim C9, as the code has it: a frame without the column \<open>amount\<close>, or with it and
  without \<open>avg_transaction_amount_30d\<close>, makes \<^verbatim>\<open>create_amount_features\<close> raise a
  \<^verbatim>\<open>KeyError\<close> that carries the missing label; a frame without the column
  \<open>timestamp\<close> is returned by \<^verbatim>\<open>create_temporal_features\<close> as it is, no temporal
  feature derived and no error raised.
\<close>

theorem missing_field:
  "(''amount'' \<notin> set (columns df) \<longrightarrow>
      create_amount_features df = Inl (KeyError [''amount''])) \<and>
   (numeric df ''amount'' = Inr xs \<and> ''avg_transaction_amount_30d'' \<notin> set (columns df) \<longrightarrow>
      create_amount_features df = Inl (KeyError [''avg_transaction_amount_30d''])) \<and>
   (''timestamp'' \<notin> set (columns df) \<longrightarrow>
      create_temporal_features to_datetime df ''timestamp'' = Inr df)"
  by (simp add: create_amount_features_def create_temporal_features_def numeric_missing
      numeric_setitem_other bind_def Let_def)

theorem missing_field_witness:
  "create_amount_features [(''avg_transaction_amount_30d'', FloatCol [200])]
     = Inl (KeyError [''amount'']) \<and>
   create_amount_features [(''amount'', FloatCol [10])]
     = Inl (KeyError [''avg_transaction_amount_30d'']) \<and>
   create_temporal_features no_datetime [(''amount'', FloatCol [10])] ''timestamp''
     = Inr [(''amount'', FloatCol [10])]"
  using missing_field [of "[(''avg_transaction_amount_30d'', FloatCol [200])]" "[]" no_datetime]
    missing_field [of "[(''amount'', FloatCol [10])]" "[10]" no_datetime]
  by (simp add: columns_def numeric_def getitem_def bind_def)

text \<open>
  Claim C9 as the specification states it fails on a frame without a timestamp: the
  temporal transforms are skipped and the frame comes back without an error.
\<close>

theorem missing_field_counterexample:
  "create_temporal_features no_datetime [(''amount'', FloatCol [10])] ''timestamp''
     = Inr [(''amount'', FloatCol [10])]"
  by (simp add: create_temporal_features_def columns_def)

text \<open>
  The two risk scores on a request: the serving path sums the four weighted signals; the
  training path, run on the same one-row frame, adds one more whenever the hour is not a
  peak hour (its weekend term truncates to zero).
\<close>

lemmas feature_steps = request_frame_def predict_features_def fe_fit_transform_def
  create_amount_features_def create_temporal_features_def create_velocity_features_def
  create_distance_features_def create_risk_score_def serving_risk_score_def
  bind_def numeric_def getitem_def setitem_def dt_def columns_def drop_columns_def
  add_cols_def eq0_def Let_def

lemma trunc_half_flag: "trunc (real_of_int (flag b) / 2) = 0"
  by (simp add: trunc_def flag_def)

lemma risk_score_training:
  "bind (fe_fit_transform to_datetime (request_frame now t)) (\<lambda>d. getitem d ''risk_score'') =
   Inr (IntCol [flag (amount t > 1000) * 2 + flag (card_present t = 0)
      + flag (distance_from_home t > 100) + flag (num_transactions_24h t > 5)
      + flag (hour now \<notin> {8, 9, 10, 17, 18, 19})])"
  apply (simp add: feature_steps trunc_half_flag)
  apply (simp add: flag_def)
  done

lemma risk_score_serving:
  "bind (predict_features now t) (\<lambda>d. getitem d ''risk_score'') =
   Inr (IntCol [flag (amount t > 1000) * 2 + flag (card_present t = 0)
      + flag (distance_from_home t > 100) + flag (num_transactions_24h t > 5)])"
  by (simp add: feature_steps)

text \<open>
  Claim C2 at the specification's scenario, requested at noon: the serving path gives the
  risk score 5, the sum of the four signals; the training path gives 6 for the same
  record.
\<close>

theorem risk_score_train_serve_mismatch:
  "bind (predict_features example_now example_transaction) (\<lambda>d. getitem d ''risk_score'')
     = Inr (IntCol [5]) \<and>
   bind (fe_fit_transform no_datetime (request_frame example_now example_transaction))
       (\<lambda>d. getitem d ''risk_score'')
     = Inr (IntCol [6])"
  by (simp add: risk_score_training risk_score_serving example_transaction_def
      example_now_def flag_def)

section \<open>Properties of the encoder\<close>

lemma index_of_sorted_card:
  "sorted xs \<Longrightarrow> distinct xs \<Longrightarrow> x \<in> set xs \<Longrightarrow> index_of xs x = card {v \<in> set xs. v < x}"
proof (induction xs)
  case Nil
  then show ?case by simp
next
  case (Cons a xs)
  show ?case
  proof (cases "a = x")
    case True
    from Cons.prems have "\<forall>v\<in>set xs. a \<le> v" by simp
    then have "{v \<in> set (a # xs). v < x} = {}" using True by auto
    then show ?thesis using True by simp
  next
    case False
    with Cons.prems have xin: "x \<in> set xs" and ax: "a < x" and anot: "a \<notin> set xs"
      by auto
    have "{v \<in> set (a # xs). v < x} = insert a {v \<in> set xs. v < x}"
      using ax by auto
    moreover have "a \<notin> {v \<in> set xs. v < x}" using anot by simp
    moreover have "finite {v \<in> set xs. v < x}" by simp
    ultimately have "card {v \<in> set (a # xs). v < x} = Suc (card {v \<in> set xs. v < x})"
      by simp
    moreover have "index_of xs x = card {v \<in> set xs. v < x}"
      using Cons.IH Cons.prems xin by simp
    ultimately show ?thesis using False by simp
  qed
qed

lemma le_fit_props: "sorted (le_fit ys) \<and> distinct (le_fit ys) \<and> set (le_fit ys) = set ys"
  by (simp add: le_fit_def)

lemma le_transform_single:
  "x \<in> set classes \<Longrightarrow> le_transform classes [x] = Inr [int (index_of classes x)]"
  by (simp add: le_transform_def)

lemma encode_or_sentinel_eq:
  "encode_or_sentinel classes x = Inr (if x \<in> set classes then int (index_of classes x) else - 1)"
  by (simp add: encode_or_sentinel_def le_transform_single bind_def)

lemma apply_col_total: "(\<And>x. f x = Inr (g x)) \<Longrightarrow> apply_col f xs = Inr (map g xs)"
  by (induction xs) (simp_all add: bind_def)

lemma apply_col_encode:
  "apply_col (encode_or_sentinel classes) xs =
     Inr (map (\<lambda>x. if x \<in> set classes then int (index_of classes x) else - 1) xs)"
  by (rule apply_col_total) (rule encode_or_sentinel_eq)

text \<open>
  Claim C6, as the code has it: fitting stores the distinct values in sorted order, and
  the code of a value is the number of distinct fitted values that are smaller than it in
  the lexicographic order, whatever the order of appearance; the function used in apply
  mode gives a fitted value that same code.
\<close>

theorem label_codes_sorted_order:
  "sorted (fst (le_fit_transform ys)) \<and> distinct (fst (le_fit_transform ys)) \<and>
   set (fst (le_fit_transform ys)) = set ys \<and>
   snd (le_fit_transform ys) = map (\<lambda>y. int (card {v \<in> set ys. v < y})) ys \<and>
   (\<forall>x\<in>set ys. encode_or_sentinel (fst (le_fit_transform ys)) x
        = Inr (int (card {v \<in> set ys. v < x})))"
proof -
  have "\<And>x. x \<in> set ys \<Longrightarrow> index_of (le_fit ys) x = card {v \<in> set ys. v < x}"
    using index_of_sorted_card [of "le_fit ys"] le_fit_props [of ys] by simp
  then show ?thesis
    by (simp add: le_fit_transform_def Let_def encode_or_sentinel_eq le_fit_props)
qed

theorem label_codes_sorted_order_witness:
  "''gas'' \<in> set [''gas'', ''food''] \<and>
   encode_or_sentinel (fst (le_fit_transform [''gas'', ''food''])) ''gas''
     = Inr (int (card {v \<in> set [''gas'', ''food'']. v < ''gas''})) \<and>
   snd (le_fit_transform [''gas'', ''food'']) 
     = map (\<lambda>y. int (card {v \<in> set [''gas'', ''food'']. v < y})) [''gas'', ''food'']"
  using label_codes_sorted_order [of "[''gas'', ''food'']"] by simp

text \<open>
  Claim C6 as the specification states it fails on the sequence \<open>gas, food\<close>: the value
  seen first gets the code 1 and the value seen second the code 0.
\<close>

theorem first_seen_codes_counterexample:
  "snd (le_fit_transform [''gas'', ''food'']) = [1, 0]"
  by (simp add: le_fit_transform_def le_fit_def)

section \<open>Properties of the preprocessor\<close>

lemma encode_loop_no_encoders: "encode_loop py_str False cols [] df = Inr ([], df)"
  by (induction cols) (auto split: option.splits)

text \<open>
  Claim C4, as the code has it: on a preprocessor that holds no fitted encoder and no
  fitted scaler, as after \<^verbatim>\<open>__init__\<close>, the encoding and the scaling in apply mode
  raise nothing and return the input frame as it is, neither encoded nor scaled.
\<close>

theorem apply_before_fit_returns_input:
  assumes "label_encoders st = []" and "scaler st = None"
  shows "encode_categorical_features py_str st df False = Inr (st, df) \<and>
         scale_numeric_features to_float st df False = Inr (st, df)"
  using assms
  by (simp add: encode_categorical_features_def scale_numeric_features_def
      encode_loop_no_encoders bind_def)

theorem apply_before_fit_returns_input_witness:
  "encode_categorical_features no_str (init ''is_fraud'')
       [(''merchant_category'', ObjCol [''food'']), (''amount'', FloatCol [10])] False
     = Inr (init ''is_fraud'', [(''merchant_category'', ObjCol [''food'']), (''amount'', FloatCol [10])]) \<and>
   scale_numeric_features no_float (init ''is_fraud'')
       [(''merchant_category'', ObjCol [''food'']), (''amount'', FloatCol [10])] False
     = Inr (init ''is_fraud'', [(''merchant_category'', ObjCol [''food'']), (''amount'', FloatCol [10])])"
proof -
  have a: "label_encoders (init ''is_fraud'') = []" by (simp add: init_def)
  have b: "scaler (init ''is_fraud'') = None" by (simp add: init_def)
  show ?thesis by (rule apply_before_fit_returns_input [OF a b])
qed

text \<open>
  Claim C4 as the specification states it fails on a new preprocessor: scaling in apply
  mode returns the unscaled amount and raises no error.
\<close>

theorem apply_before_fit_counterexample:
  "scale_numeric_features no_float
       ((init ''is_fraud'')\<lparr>numeric_features := [''amount'']\<rparr>) [(''amount'', FloatCol [10])] False
     = Inr ((init ''is_fraud'')\<lparr>numeric_features := [''amount'']\<rparr>, [(''amount'', FloatCol [10])])"
  by (simp add: scale_numeric_features_def init_def)

lemma encode_loop_fit_other:
  "c \<notin> set cols \<Longrightarrow> encode_loop py_str True cols E d = Inr (E', d') \<Longrightarrow> map_of E' c = map_of E c"
proof (induction cols arbitrary: E d)
  case Nil
  then show ?case by simp
next
  case (Cons a cols)
  show ?case
  proof (cases "map_of d a")
    case None
    with Cons show ?thesis by simp
  next
    case (Some col)
    with Cons.prems have
      "encode_loop py_str True cols (AList.update a (le_fit (astype_str py_str col)) E)
         (setitem d a (IntCol (map (\<lambda>y. int (index_of (le_fit (astype_str py_str col)) y))
            (astype_str py_str col)))) = Inr (E', d')"
      by (simp add: le_fit_transform_def Let_def)
    with Cons.IH Cons.prems(1)
    have "map_of E' c = map_of (AList.update a (le_fit (astype_str py_str col)) E) c"
      by simp
    with Cons.prems(1) show ?thesis by (simp add: update_conv')
  qed
qed

lemma codes_agree:
  "map (\<lambda>x. if x \<in> set (le_fit ys) then int (index_of (le_fit ys) x) else - 1) ys
     = map (\<lambda>y. int (index_of (le_fit ys) y)) ys"
  by (simp add: le_fit_props)

lemma encode_loop_fit_then_apply:
  "distinct cols \<Longrightarrow> encode_loop py_str True cols E d = Inr (E', d') \<Longrightarrow>
   (\<forall>c\<in>set cols. map_of E2 c = map_of E' c) \<Longrightarrow>
   encode_loop py_str False cols E2 d = Inr (E2, d')"
proof (induction cols arbitrary: E d)
  case Nil
  then show ?case by simp
next
  case (Cons a cols)
  show ?case
  proof (cases "map_of d a")
    case None
    with Cons show ?thesis by simp
  next
    case (Some col)
    let ?ys = "astype_str py_str col"
    let ?codes = "map (\<lambda>y. int (index_of (le_fit ?ys) y)) ?ys"
    from Some Cons.prems(2) have run:
      "encode_loop py_str True cols (AList.update a (le_fit ?ys) E) (setitem d a (IntCol ?codes))
         = Inr (E', d')"
      by (simp add: le_fit_transform_def Let_def)
    from Cons.prems(1) have "a \<notin> set cols" by simp
    from encode_loop_fit_other [OF this run]
    have "map_of E' a = Some (le_fit ?ys)" by (simp add: update_conv')
    with Cons.prems(3) have enc: "map_of E2 a = Some (le_fit ?ys)" by simp
    have rest: "encode_loop py_str False cols E2 (setitem d a (IntCol ?codes)) = Inr (E2, d')"
      using Cons.IH [OF _ run] Cons.prems(1,3) by simp
    show ?thesis
      using Some enc rest by (simp add: apply_col_encode codes_agree bind_def)
  qed
qed

lemma encode_loop_fit_total: "\<exists>E' d'. encode_loop py_str True cols E d = Inr (E', d')"
proof (induction cols arbitrary: E d)
  case Nil
  then show ?case by simp
next
  case (Cons a cols)
  then show ?case by (cases "map_of d a") (simp_all add: le_fit_transform_def Let_def)
qed

lemma columns_setitem_present:
  "map_of df c = Some v \<Longrightarrow> columns (setitem df c col) = columns df"
  by (simp add: columns_def setitem_def update_keys map_of_eq_None_iff [symmetric])

lemma encode_loop_apply_total: "\<exists>d'. encode_loop py_str False cols E d = Inr (E, d')"
proof (induction cols arbitrary: d)
  case Nil
  then show ?case by simp
next
  case (Cons a cols)
  then show ?case
    by (cases "map_of d a"; cases "map_of E a") (simp_all add: apply_col_encode bind_def)
qed

lemma encode_loop_apply_frame:
  "encode_loop py_str False cols E d = Inr (E', d') \<Longrightarrow>
   columns d' = columns d \<and> (\<forall>c. c \<notin> set cols \<longrightarrow> map_of d' c = map_of d c)"
proof (induction cols arbitrary: d)
  case Nil
  then show ?case by simp
next
  case (Cons a cols)
  show ?case
  proof (cases "map_of d a")
    case None
    with Cons show ?thesis by simp
  next
    case (Some col)
    show ?thesis
    proof (cases "map_of E a")
      case None
      with Some Cons show ?thesis by simp
    next
      case (Some classes)
      let ?d1 = "setitem d a (IntCol (map (\<lambda>x. if x \<in> set classes
                   then int (index_of classes x) else - 1) (astype_str py_str col)))"
      from Cons.prems \<open>map_of d a = Some col\<close> Some
      have "encode_loop py_str False cols E ?d1 = Inr (E', d')"
        by (simp add: apply_col_encode bind_def)
      from Cons.IH [OF this] \<open>map_of d a = Some col\<close> show ?thesis
        by (simp add: columns_setitem_present map_of_setitem)
    qed
  qed
qed

lemma encode_loop_apply_col:
  "distinct cols \<Longrightarrow> col \<in> set cols \<Longrightarrow> map_of d col = Some c \<Longrightarrow>
   map_of E col = Some classes \<Longrightarrow> encode_loop py_str False cols E d = Inr (E', d') \<Longrightarrow>
   map_of d' col = Some (IntCol (map (\<lambda>x. if x \<in> set classes then int (index_of classes x) else - 1)
                                   (astype_str py_str c)))"
proof (induction cols arbitrary: d)
  case Nil
  then show ?case by simp
next
  case (Cons a cols)
  show ?case
  proof (cases "a = col")
    case True
    let ?d1 = "setitem d col (IntCol (map (\<lambda>x. if x \<in> set classes
                 then int (index_of classes x) else - 1) (astype_str py_str c)))"
    from Cons.prems True have run: "encode_loop py_str False cols E ?d1 = Inr (E', d')"
      by (simp add: apply_col_encode bind_def)
    from Cons.prems(1) True have "col \<notin> set cols" by simp
    with encode_loop_apply_frame [OF run] have "map_of d' col = map_of ?d1 col" by simp
    then show ?thesis by (simp add: map_of_setitem)
  next
    case False
    with Cons.prems have mem: "col \<in> set cols" and dis: "distinct cols" by auto
    show ?thesis
    proof (cases "map_of d a")
      case None
      with Cons.prems have "encode_loop py_str False cols E d = Inr (E', d')" by simp
      from Cons.IH [OF dis mem Cons.prems(3,4) this] show ?thesis .
    next
      case (Some ca)
      show ?thesis
      proof (cases "map_of E a")
        case None
        with Some Cons.prems have "encode_loop py_str False cols E d = Inr (E', d')" by simp
        from Cons.IH [OF dis mem Cons.prems(3,4) this] show ?thesis .
      next
        case (Some cl)
        let ?d1 = "setitem d a (IntCol (map (\<lambda>x. if x \<in> set cl
                     then int (index_of cl x) else - 1) (astype_str py_str ca)))"
        from Cons.prems \<open>map_of d a = Some ca\<close> Some
        have run: "encode_loop py_str False cols E ?d1 = Inr (E', d')"
          by (simp add: apply_col_encode bind_def)
        have "map_of ?d1 col = Some c"
          using False Cons.prems(3) by (simp add: map_of_setitem)
        from Cons.IH [OF dis mem this Cons.prems(4) run] show ?thesis .
      qed
    qed
  qed
qed

lemma encode_loop_fit_frame:
  "encode_loop py_str True cols E d = Inr (E', d') \<Longrightarrow> c \<notin> set cols \<Longrightarrow> map_of d' c = map_of d c"
proof (induction cols arbitrary: E d)
  case Nil
  then show ?case by simp
next
  case (Cons a cols)
  show ?case
  proof (cases "map_of d a")
    case None
    with Cons show ?thesis by simp
  next
    case (Some col)
    let ?ys = "astype_str py_str col"
    let ?d1 = "setitem d a (IntCol (map (\<lambda>y. int (index_of (le_fit ?ys) y)) ?ys))"
    from Some Cons.prems(1) have
      "encode_loop py_str True cols (AList.update a (le_fit ?ys) E) ?d1 = Inr (E', d')"
      by (simp add: le_fit_transform_def Let_def)
    from Cons.IH [OF this] Cons.prems(2) show ?thesis by (simp add: map_of_setitem)
  qed
qed

lemma encode_loop_fit_col:
  "distinct cols \<Longrightarrow> col \<in> set cols \<Longrightarrow> map_of d col = Some c \<Longrightarrow>
   encode_loop py_str True cols E d = Inr (E', d') \<Longrightarrow>
   map_of E' col = Some (le_fit (astype_str py_str c)) \<and>
   map_of d' col = Some (IntCol (map (\<lambda>y. int (index_of (le_fit (astype_str py_str c)) y))
                                   (astype_str py_str c)))"
proof (induction cols arbitrary: E d)
  case Nil
  then show ?case by simp
next
  case (Cons a cols)
  show ?case
  proof (cases "a = col")
    case True
    let ?ys = "astype_str py_str c"
    let ?d1 = "setitem d col (IntCol (map (\<lambda>y. int (index_of (le_fit ?ys) y)) ?ys))"
    from Cons.prems True have run:
      "encode_loop py_str True cols (AList.update col (le_fit ?ys) E) ?d1 = Inr (E', d')"
      by (simp add: le_fit_transform_def Let_def)
    from Cons.prems(1) True have notin: "col \<notin> set cols" by simp
    from encode_loop_fit_other [OF notin run] encode_loop_fit_frame [OF run notin]
    show ?thesis by (simp add: update_conv' map_of_setitem)
  next
    case False
    with Cons.prems have mem: "col \<in> set cols" and dis: "distinct cols" by auto
    show ?thesis
    proof (cases "map_of d a")
      case None
      with Cons.prems have "encode_loop py_str True cols E d = Inr (E', d')" by simp
      from Cons.IH [OF dis mem Cons.prems(3) this] show ?thesis .
    next
      case (Some ca)
      let ?ys = "astype_str py_str ca"
      let ?d1 = "setitem d a (IntCol (map (\<lambda>y. int (index_of (le_fit ?ys) y)) ?ys))"
      from Some Cons.prems(4) have run:
        "encode_loop py_str True cols (AList.update a (le_fit ?ys) E) ?d1 = Inr (E', d')"
        by (simp add: le_fit_transform_def Let_def)
      have "map_of ?d1 col = Some c" using False Cons.prems(3) by (simp add: map_of_setitem)
      from Cons.IH [OF dis mem this run] show ?thesis .
    qed
  qed
qed

text \<open>
  Claim C5: let the encoding in fit mode have returned on a batch in which the
  categorical column \<open>col\<close> holds the values \<open>ys\<close>. Then the encoding in apply mode
  returns on every batch that has the column, with the same labels in the same order,
  and its column \<open>col\<close> holds a code for every value: \<open>-1\<close> for a value that is not
  among \<open>ys\<close>, and for a value of \<open>ys\<close> the code that value has in the batch returned
  by the fit. The encoder stored for the column is the one fitted on \<open>ys\<close>, and every
  code is what the function applied by \<^verbatim>\<open>predict_fraud\<close> gives with that encoder.
\<close>

theorem unseen_category_sentinel:
  assumes dis: "distinct (categorical_features st0)"
    and mem: "col \<in> set (categorical_features st0)"
    and fitcol: "map_of df0 col = Some c0"
    and fit: "encode_categorical_features py_str st0 df0 True = Inr (st, df_fit)"
    and appcol: "map_of df col = Some c"
  shows "\<exists>codes out df'.
      map_of df_fit col = Some (IntCol codes) \<and>
      map_of (label_encoders st) col = Some (fst (le_fit_transform (astype_str py_str c0))) \<and>
      encode_categorical_features py_str st df False = Inr (st, df') \<and>
      columns df' = columns df \<and>
      map_of df' col = Some (IntCol out) \<and>
      length out = length (astype_str py_str c) \<and>
      (\<forall>k<length (astype_str py_str c).
         (astype_str py_str c ! k \<notin> set (astype_str py_str c0) \<longrightarrow> out ! k = - 1) \<and>
         (\<forall>i<length (astype_str py_str c0).
            astype_str py_str c ! k = astype_str py_str c0 ! i \<longrightarrow> out ! k = codes ! i) \<and>
         encode_or_sentinel (fst (le_fit_transform (astype_str py_str c0))) (astype_str py_str c ! k)
           = Inr (out ! k))"
proof -
  let ?ys = "astype_str py_str c0" and ?xs = "astype_str py_str c"
  let ?cats = "categorical_features st0"
  let ?codes = "map (\<lambda>y. int (index_of (le_fit ?ys) y)) ?ys"
  let ?out = "map (\<lambda>x. if x \<in> set (le_fit ?ys) then int (index_of (le_fit ?ys) x) else - 1) ?xs"
  from fit obtain E' where loop: "encode_loop py_str True ?cats (label_encoders st0) df0 = Inr (E', df_fit)"
    and st: "st = st0\<lparr>label_encoders := E'\<rparr>"
    by (cases "encode_loop py_str True ?cats (label_encoders st0) df0")
       (auto simp add: encode_categorical_features_def bind_def)
  from encode_loop_fit_col [OF dis mem fitcol loop]
  have enc: "map_of E' col = Some (le_fit ?ys)" and fitted: "map_of df_fit col = Some (IntCol ?codes)"
    by simp_all
  obtain df' where app: "encode_loop py_str False ?cats E' df = Inr (E', df')"
    using encode_loop_apply_total by blast
  have call: "encode_categorical_features py_str st df False = Inr (st, df')"
    using app by (simp add: encode_categorical_features_def st bind_def)
  have cols: "columns df' = columns df"
    using encode_loop_apply_frame [OF app] by simp
  have out: "map_of df' col = Some (IntCol ?out)"
    using encode_loop_apply_col [OF dis mem appcol enc app] .
  have rule: "(?xs ! k \<notin> set ?ys \<longrightarrow> ?out ! k = - 1) \<and>
         (\<forall>i<length ?ys. ?xs ! k = ?ys ! i \<longrightarrow> ?out ! k = ?codes ! i) \<and>
         encode_or_sentinel (fst (le_fit_transform ?ys)) (?xs ! k) = Inr (?out ! k)"
    if "k < length ?xs" for k
    using that by (auto simp add: le_fit_props le_fit_transform_def Let_def encode_or_sentinel_eq)
  have encs: "map_of (label_encoders st) col = Some (fst (le_fit_transform ?ys))"
    using enc by (simp add: st le_fit_transform_def Let_def)
  from fitted encs call cols out rule show ?thesis
    by (intro exI [of _ ?codes] exI [of _ ?out] exI [of _ df']) simp
qed

theorem unseen_category_sentinel_witness:
  "distinct (categorical_features category_state) \<and>
   ''merchant_category'' \<in> set (categorical_features category_state) \<and>
   map_of category_batch ''merchant_category'' = Some (ObjCol [''food'', ''gas'']) \<and>
   encode_categorical_features no_str category_state category_batch True
     = Inr (category_state\<lparr>label_encoders := [(''merchant_category'', [''food'', ''gas''])]\<rparr>,
            [(''merchant_category'', IntCol [0, 1]), (''amount'', FloatCol [10, 20])]) \<and>
   map_of category_request ''merchant_category'' = Some (ObjCol [''gas'', ''travel'', ''food'']) \<and>
   (\<exists>df'. encode_categorical_features no_str
            (category_state\<lparr>label_encoders := [(''merchant_category'', [''food'', ''gas''])]\<rparr>)
            category_request False
          = Inr (category_state\<lparr>label_encoders := [(''merchant_category'', [''food'', ''gas''])]\<rparr>, df') \<and>
        map_of df' ''merchant_category'' = Some (IntCol [1, - 1, 0]))"
proof -
  let ?st = "category_state\<lparr>label_encoders := [(''merchant_category'', [''food'', ''gas''])]\<rparr>"
  let ?fit = "[(''merchant_category'', IntCol [0, 1]), (''amount'', FloatCol [10, 20])]"
  have a: "distinct (categorical_features category_state)"
    by (simp add: category_state_def init_def)
  have b: "''merchant_category'' \<in> set (categorical_features category_state)"
    by (simp add: category_state_def init_def)
  have c: "map_of category_batch ''merchant_category'' = Some (ObjCol [''food'', ''gas''])"
    by (simp add: category_batch_def)
  have d: "encode_categorical_features no_str category_state category_batch True = Inr (?st, ?fit)"
    by (simp add: encode_categorical_features_def category_state_def category_batch_def init_def
        le_fit_transform_def le_fit_def astype_str_def setitem_def bind_def Let_def)
  have e: "map_of category_request ''merchant_category'' = Some (ObjCol [''gas'', ''travel'', ''food''])"
    by (simp add: category_request_def)
  from unseen_category_sentinel [OF a b c d e] obtain codes out df' where
    fitted: "map_of ?fit ''merchant_category'' = Some (IntCol codes)"
    and call: "encode_categorical_features no_str ?st category_request False = Inr (?st, df')"
    and col: "map_of df' ''merchant_category'' = Some (IntCol out)"
    and len: "length out = length (astype_str no_str (ObjCol [''gas'', ''travel'', ''food'']))"
    and rule: "\<forall>k<length (astype_str no_str (ObjCol [''gas'', ''travel'', ''food''])).
         (astype_str no_str (ObjCol [''gas'', ''travel'', ''food'']) ! k
            \<notin> set (astype_str no_str (ObjCol [''food'', ''gas''])) \<longrightarrow> out ! k = - 1) \<and>
         (\<forall>i<length (astype_str no_str (ObjCol [''food'', ''gas''])).
            astype_str no_str (ObjCol [''gas'', ''travel'', ''food'']) ! k
              = astype_str no_str (ObjCol [''food'', ''gas'']) ! i \<longrightarrow> out ! k = codes ! i) \<and>
         encode_or_sentinel (fst (le_fit_transform (astype_str no_str (ObjCol [''food'', ''gas'']))))
           (astype_str no_str (ObjCol [''gas'', ''travel'', ''food'']) ! k) = Inr (out ! k)"
    by blast
  from fitted have codes: "codes = [0, 1]" by simp
  from len have len3: "length out = 3" by (simp add: astype_str_def)
  from rule have r: "\<forall>k<3. ([''gas'', ''travel'', ''food''] ! k \<notin> set [''food'', ''gas''] \<longrightarrow> out ! k = - 1) \<and>
      (\<forall>i<2. [''gas'', ''travel'', ''food''] ! k = [''food'', ''gas''] ! i \<longrightarrow> out ! k = codes ! i)"
    by (simp add: astype_str_def)
  from r have "out ! 0 = codes ! 1" by (auto simp add: numeral_2_eq_2 numeral_3_eq_3)
  moreover from r have "out ! 1 = - 1" by (auto simp add: numeral_3_eq_3)
  moreover from r have "out ! 2 = codes ! 0" by (auto simp add: numeral_2_eq_2 numeral_3_eq_3)
  ultimately have "out = [1, - 1, 0]"
    using len3 codes by (cases out; cases "tl out"; cases "tl (tl out)") auto
  with col have "map_of df' ''merchant_category'' = Some (IntCol [1, - 1, 0])" by simp
  with a b c d e call show ?thesis by blast
qed

lemma scale_fit_then_apply:
  assumes "scale_numeric_features to_float st df True = Inr (st', df')"
  shows "scale_numeric_features to_float st' df False = Inr (st', df')"
proof -
  from assms obtain X where X: "select to_float df (numeric_features st) = Inr X"
    by (cases "select to_float df (numeric_features st)")
       (simp_all add: scale_numeric_features_def bind_def)
  from assms X obtain sc where sc: "scaler_fit X = Inr sc"
    by (cases "scaler_fit X")
       (simp_all add: scale_numeric_features_def scaler_fit_transform_def bind_def)
  from assms X sc obtain Y where Y: "scaler_transform sc X = Inr Y"
    by (cases "scaler_transform sc X")
       (simp_all add: scale_numeric_features_def scaler_fit_transform_def bind_def)
  from assms X sc Y have st': "st' = st\<lparr>scaler := Some sc\<rparr>"
    and df': "df' = assign df (numeric_features st) Y"
    by (simp_all add: scale_numeric_features_def scaler_fit_transform_def bind_def)
  show ?thesis
    using X Y by (simp add: st' df' scale_numeric_features_def bind_def)
qed

lemma separate_target_cong:
  "target_col st' = target_col st \<Longrightarrow> features_to_drop st' = features_to_drop st \<Longrightarrow>
   separate_target st' df = separate_target st df"
  by (simp add: separate_target_def)

lemma identify_categorical_distinct:
  "distinct (columns df) \<Longrightarrow> distinct (categorical_features (identify_feature_types st df))"
  by (simp add: identify_feature_types_def Let_def columns_def distinct_map_filter)

text \<open>
  Claim C1: when \<^verbatim>\<open>fit_transform\<close> has returned on a batch with unique column labels,
  \<^verbatim>\<open>transform\<close> of the same batch with the fitted state returns the same feature
  matrix, column for column and value for value, and the same target. Floats are read as
  reals, so the two matrices are equal, not only close.
\<close>

theorem train_serve_parity:
  assumes wf: "distinct (columns df)"
    and fit: "fit_transform py_str to_float st df = Inr (st', X, y)"
  shows "transform py_str to_float st' df = Inr (X, y)"
proof -
  let ?st1 = "identify_feature_types st df"
  obtain df_features y0 where sep: "separate_target ?st1 df = (df_features, y0)"
    by (cases "separate_target ?st1 df")
  obtain E' df_encoded where enc:
    "encode_loop py_str True (categorical_features ?st1) (label_encoders ?st1) df_features
       = Inr (E', df_encoded)"
    using encode_loop_fit_total by blast
  let ?st2 = "?st1\<lparr>label_encoders := E'\<rparr>"
  from fit sep enc obtain st3 df_scaled where
    scl: "scale_numeric_features to_float ?st2 df_encoded True = Inr (st3, df_scaled)"
    and res: "st' = st3" "X = df_scaled" "y = y0"
    by (cases "fraud_rate y0"; cases "scale_numeric_features to_float ?st2 df_encoded True")
       (auto simp add: fit_transform_def Let_def encode_categorical_features_def bind_def)
  from scl have st3: "\<exists>sc. st3 = ?st2\<lparr>scaler := sc\<rparr>"
    by (auto simp add: scale_numeric_features_def scaler_fit_transform_def bind_def
        split: sum.splits)
  then obtain sc where st3_eq: "st3 = ?st2\<lparr>scaler := sc\<rparr>" by blast
  have tc: "target_col st3 = target_col ?st1" "features_to_drop st3 = features_to_drop ?st1"
    "categorical_features st3 = categorical_features ?st1" "label_encoders st3 = E'"
    by (simp_all add: st3_eq)
  have sep3: "separate_target st3 df = (df_features, y0)"
    using separate_target_cong [of st3 ?st1 df] tc sep by simp
  have apply_enc:
    "encode_loop py_str False (categorical_features ?st1) E' df_features = Inr (E', df_encoded)"
    using encode_loop_fit_then_apply [OF identify_categorical_distinct [OF wf] enc] by simp
  have enc3: "encode_categorical_features py_str st3 df_features False = Inr (st3, df_encoded)"
    using apply_enc tc by (simp add: encode_categorical_features_def bind_def)
  have scl3: "scale_numeric_features to_float st3 df_encoded False = Inr (st3, df_scaled)"
    using scale_fit_then_apply [OF scl] .
  show ?thesis
    using sep3 enc3 scl3 res by (simp add: transform_def bind_def)
qed
lemma example_fit:
  "fit_transform no_str no_float (init ''is_fraud'') example_batch
     = Inr (example_fitted, example_matrix, Some (IntCol [0, 1]))"
  by (simp add: fit_transform_def identify_feature_types_def separate_target_def
      encode_categorical_features_def scale_numeric_features_def fraud_rate_def
      select_def scaler_fit_transform_def scaler_fit_def scaler_transform_def empty_matrix_def
      mean_def variance_def handle_zeros_in_scale_def le_fit_transform_def le_fit_def
      astype_str_def setitem_def drop_columns_def columns_def bind_def Let_def init_def
      example_batch_def example_fitted_def example_matrix_def power2_eq_square)

theorem train_serve_parity_witness:
  "distinct (columns example_batch) \<and>
   fit_transform no_str no_float (init ''is_fraud'') example_batch
     = Inr (example_fitted, example_matrix, Some (IntCol [0, 1])) \<and>
   transform no_str no_float example_fitted example_batch
     = Inr (example_matrix, Some (IntCol [0, 1]))"
proof -
  have a: "distinct (columns example_batch)"
    by (simp add: example_batch_def columns_def)
  from train_serve_parity [OF a example_fit] a example_fit show ?thesis by blast
qed

section \<open>Properties of the drift monitor\<close>

lemma flagged_unique:
  "flagged ks b n th col s p \<Longrightarrow> flagged ks b n th col s' p' \<Longrightarrow> s' = s \<and> p' = p"
  by (auto simp add: flagged_def split: option.splits)

lemma drift_loop_detected:
  "drift_detected (drift_loop ks b n th cols r) \<longleftrightarrow>
     drift_detected r \<or> (\<exists>col\<in>set cols. \<exists>s p. flagged ks b n th col s p)"
proof (induction cols arbitrary: r)
  case Nil
  then show ?case by simp
next
  case (Cons col cols)
  show ?case
    by (cases "map_of b col"; cases "map_of n col")
       (auto simp add: Cons.IH flagged_def Let_def split: sum.splits)
qed

lemma drift_loop_entries:
  "set (features_with_drift (drift_loop ks b n th cols r)) =
     set (features_with_drift r) \<union>
     {\<lparr>feature = col, p_value = p, statistic = s\<rparr> | col s p.
        col \<in> set cols \<and> flagged ks b n th col s p}"
proof (induction cols arbitrary: r)
  case Nil
  then show ?case by simp
next
  case (Cons col cols)
  show ?case
    by (cases "map_of b col"; cases "map_of n col")
       (auto simp add: Cons.IH flagged_def Let_def split: sum.splits)
qed

lemma drift_loop_features:
  "map feature (features_with_drift (drift_loop ks b n th cols r)) =
     map feature (features_with_drift r) @ filter (\<lambda>col. \<exists>s p. flagged ks b n th col s p) cols"
proof (induction cols arbitrary: r)
  case Nil
  then show ?case by simp
next
  case (Cons col cols)
  show ?case
    by (cases "map_of b col"; cases "map_of n col")
       (auto simp add: Cons.IH flagged_def Let_def split: sum.splits)
qed

lemma drift_loop_timestamp:
  "timestamp (drift_loop ks b n th cols r) = timestamp r"
proof (induction cols arbitrary: r)
  case Nil
  then show ?case by simp
next
  case (Cons col cols)
  show ?case
    by (cases "map_of b col"; cases "map_of n col")
       (auto simp add: Cons.IH Let_def split: sum.splits)
qed

lemma flagged_common: "flagged ks b n th col s p \<Longrightarrow> col \<in> common_cols b n"
  by (auto simp add: flagged_def common_cols_def columns_def split: option.splits
      dest: map_of_SomeD intro: rev_image_eqI)

text \<open>
  Claim C7: whatever the order in which the common columns are enumerated, the scan
  reports drift if and only if some column of both frames is flagged; a column that is in
  one frame only, or that has no value left in one of them once the missing values are
  removed, is not among the reported features.
\<close>

theorem drift_detected_iff:
  assumes "set (enum (common_cols (baseline_data m) new_data)) = common_cols (baseline_data m) new_data"
  shows "(drift_detected (fst (detect_data_drift ks enum now m new_data threshold)) \<longleftrightarrow>
           (\<exists>col\<in>common_cols (baseline_data m) new_data. \<exists>stat p.
              flagged ks (baseline_data m) new_data threshold col stat p)) \<and>
         (\<forall>col. col \<notin> set (columns (baseline_data m)) \<or> col \<notin> set (columns new_data) \<or>
              (\<exists>bc. map_of (baseline_data m) col = Some bc \<and> dropna bc = []) \<or>
              (\<exists>nc. map_of new_data col = Some nc \<and> dropna nc = []) \<longrightarrow>
            col \<notin> feature ` set (features_with_drift
                        (fst (detect_data_drift ks enum now m new_data threshold))))"
proof -
  let ?r = "fst (detect_data_drift ks enum now m new_data threshold)"
  have "map feature (features_with_drift ?r) =
      filter (\<lambda>col. \<exists>s p. flagged ks (baseline_data m) new_data threshold col s p)
        (enum (common_cols (baseline_data m) new_data))"
    by (simp add: detect_data_drift_def Let_def drift_loop_features)
  then have "set (map feature (features_with_drift ?r)) \<subseteq>
      {col. \<exists>s p. flagged ks (baseline_data m) new_data threshold col s p}"
    by auto
  then have feats: "feature ` set (features_with_drift ?r) \<subseteq>
      {col. \<exists>s p. flagged ks (baseline_data m) new_data threshold col s p}"
    by simp
  have skipped: "col \<notin> feature ` set (features_with_drift ?r)"
    if "col \<notin> set (columns (baseline_data m)) \<or> col \<notin> set (columns new_data) \<or>
        (\<exists>bc. map_of (baseline_data m) col = Some bc \<and> dropna bc = []) \<or>
        (\<exists>nc. map_of new_data col = Some nc \<and> dropna nc = [])" for col
  proof
    assume "col \<in> feature ` set (features_with_drift ?r)"
    with feats obtain s p where "flagged ks (baseline_data m) new_data threshold col s p"
      by blast
    with that flagged_common [of ks "baseline_data m" new_data threshold col s p]
    show False by (auto simp add: flagged_def common_cols_def split: option.splits)
  qed
  have "drift_detected ?r \<longleftrightarrow>
           (\<exists>col\<in>common_cols (baseline_data m) new_data. \<exists>stat p.
              flagged ks (baseline_data m) new_data threshold col stat p)"
    using assms by (simp add: detect_data_drift_def Let_def drift_loop_detected)
  with skipped show ?thesis by blast
qed

theorem drift_detected_iff_witness:
  "set (enum_of [''amount'', ''customer_age'', ''hour'']
          (common_cols (baseline_data example_monitor) example_new))
     = common_cols (baseline_data example_monitor) example_new \<and>
   drift_detected (fst (detect_data_drift example_ks (enum_of [''amount'', ''customer_age'', ''hour''])
      ''2026-01-01T00:00:00'' example_monitor example_new default_threshold)) \<and>
   ''customer_age'' \<notin> feature ` set (features_with_drift
      (fst (detect_data_drift example_ks (enum_of [''amount'', ''customer_age'', ''hour''])
         ''2026-01-01T00:00:00'' example_monitor example_new default_threshold)))"
proof -
  have h: "set (enum_of [''amount'', ''customer_age'', ''hour'']
          (common_cols (baseline_data example_monitor) example_new))
     = common_cols (baseline_data example_monitor) example_new"
    by (auto simp add: enum_of_def common_cols_def columns_def example_monitor_def
        example_baseline_def example_new_def)
  note t = drift_detected_iff [where enum = "enum_of [''amount'', ''customer_age'', ''hour'']"
      and m = example_monitor and new_data = example_new and ks = example_ks
      and now = "''2026-01-01T00:00:00''" and threshold = default_threshold, OF h]
  have f: "flagged example_ks (baseline_data example_monitor) example_new default_threshold
     ''amount'' 1 0"
    by (simp add: flagged_def example_ks_def example_monitor_def example_baseline_def
        example_new_def dropna_def default_threshold_def)
  have c: "''amount'' \<in> common_cols (baseline_data example_monitor) example_new"
    by (rule flagged_common [OF f])
  have e: "\<exists>bc. map_of (baseline_data example_monitor) ''customer_age'' = Some bc \<and> dropna bc = []"
    by (simp add: example_monitor_def example_baseline_def dropna_def)
  from t f c have 1: "drift_detected (fst (detect_data_drift example_ks
      (enum_of [''amount'', ''customer_age'', ''hour''])
      ''2026-01-01T00:00:00'' example_monitor example_new default_threshold))"
    by blast
  from t e have 2: "''customer_age'' \<notin> feature ` set (features_with_drift
      (fst (detect_data_drift example_ks (enum_of [''amount'', ''customer_age'', ''hour''])
         ''2026-01-01T00:00:00'' example_monitor example_new default_threshold)))"
    by blast
  from h 1 2 show ?thesis by blast
qed

text \<open>
  Claim C10: the reported entries are exactly the entries of the flagged common columns,
  each with the column's label, the statistic and the p-value of its test; a column
  whose p-value is not below the threshold, or whose test raised, has no entry, and no
  column has two.
\<close>

theorem drift_entries_exact:
  assumes "set (enum (common_cols (baseline_data m) new_data)) = common_cols (baseline_data m) new_data"
    and "distinct (enum (common_cols (baseline_data m) new_data))"
  shows "set (features_with_drift (fst (detect_data_drift ks enum now m new_data threshold))) =
           {\<lparr>feature = col, p_value = p, statistic = stat\<rparr> | col stat p.
              col \<in> common_cols (baseline_data m) new_data \<and>
              flagged ks (baseline_data m) new_data threshold col stat p} \<and>
         distinct (map feature (features_with_drift (fst (detect_data_drift ks enum now m new_data threshold))))"
  using assms by (simp add: detect_data_drift_def Let_def drift_loop_entries drift_loop_features)
theorem drift_entries_exact_witness:
  "set (enum_of [''amount'', ''customer_age'', ''hour'']
          (common_cols (baseline_data example_monitor) example_new))
     = common_cols (baseline_data example_monitor) example_new \<and>
   distinct (enum_of [''amount'', ''customer_age'', ''hour'']
          (common_cols (baseline_data example_monitor) example_new)) \<and>
   \<lparr>feature = ''amount'', p_value = 0, statistic = 1\<rparr> \<in> set (features_with_drift
      (fst (detect_data_drift example_ks (enum_of [''amount'', ''customer_age'', ''hour''])
         ''2026-01-01T00:00:00'' example_monitor example_new default_threshold)))"
proof -
  have h: "set (enum_of [''amount'', ''customer_age'', ''hour'']
          (common_cols (baseline_data example_monitor) example_new))
     = common_cols (baseline_data example_monitor) example_new"
    by (auto simp add: enum_of_def common_cols_def columns_def example_monitor_def
        example_baseline_def example_new_def)
  have d: "distinct (enum_of [''amount'', ''customer_age'', ''hour'']
          (common_cols (baseline_data example_monitor) example_new))"
    by (simp add: enum_of_def)
  note t = drift_entries_exact [where enum = "enum_of [''amount'', ''customer_age'', ''hour'']"
      and m = example_monitor and new_data = example_new and ks = example_ks
      and now = "''2026-01-01T00:00:00''" and threshold = default_threshold, OF h d]
  have f: "flagged example_ks (baseline_data example_monitor) example_new default_threshold
     ''amount'' 1 0"
    by (simp add: flagged_def example_ks_def example_monitor_def example_baseline_def
        example_new_def dropna_def default_threshold_def)
  have c: "''amount'' \<in> common_cols (baseline_data example_monitor) example_new"
    by (rule flagged_common [OF f])
  from t f c have "\<lparr>feature = ''amount'', p_value = 0, statistic = 1\<rparr> \<in> set (features_with_drift
      (fst (detect_data_drift example_ks (enum_of [''amount'', ''customer_age'', ''hour''])
         ''2026-01-01T00:00:00'' example_monitor example_new default_threshold)))"
    by blast
  with h d show ?thesis by blast
qed

end
